theory Spec2Isabelle
  imports Main
begin

section \<open>The session guard of \<^verbatim>\<open>src/factories/lucid_user_provider.ts\<close>\<close>

text \<open>
  The class \<^verbatim>\<open>SessionGuard\<close> is embedded with explicit state passing. Its mutable
  fields are a record; what the guard reads or changes outside itself (the session of
  the HTTP context, the request cookies) is a second record, the world, which also
  carries a trace: the log of every call the guard makes to a collaborator (session
  store, cookies, emitter, provider), in program order. A thrown exception is
  the \<open>Inl\<close> of a sum; the guard and the world as they are when it is thrown are returned
  with it, since a JavaScript exception does not undo assignments.

  The methods are \<^verbatim>\<open>async\<close>; each \<^verbatim>\<open>await\<close> is run to completion in place
  (one call at a time on a guard). The provider is an interface in the source and a
  parameter here: a record of functions whose results are values (a lookup that finds
  nothing returns \<open>None\<close>; a provider that throws is not modelled).
\<close>

subsection \<open>Values\<close>

text \<open>
  A user id is \<^verbatim>\<open>string | number | BigInt\<close>. Numbers are modelled as integers
  (fractions and \<^verbatim>\<open>NaN\<close> are left out).
\<close>

datatype uid = IdString string | IdNumber int | IdBigInt int

text \<open>
  JavaScript truthiness of the values the guard tests with \<^verbatim>\<open>if (x)\<close>: the empty
  string, the number 0 and the big integer 0 are falsy, as \<^verbatim>\<open>undefined\<close> and
  \<^verbatim>\<open>null\<close> are.
\<close>

fun truthy_uid :: "uid \<Rightarrow> bool" where
  "truthy_uid (IdString s) = (s \<noteq> [])"
| "truthy_uid (IdNumber n) = (n \<noteq> 0)"
| "truthy_uid (IdBigInt n) = (n \<noteq> 0)"

fun if_truthy_uid :: "uid option \<Rightarrow> uid option" where
  "if_truthy_uid None = None"
| "if_truthy_uid (Some i) = (if truthy_uid i then Some i else None)"

fun if_truthy_string :: "string option \<Rightarrow> string option" where
  "if_truthy_string None = None"
| "if_truthy_string (Some s) = (if s \<noteq> [] then Some s else None)"

text \<open>
  The user that a provider hands out (\<^verbatim>\<open>getOriginal()\<close>) has the provider's own type,
  \<^verbatim>\<open>unknown\<close> to the guard: an object of a type \<open>'u\<close>, or a string, a number, a big
  integer or a boolean. It is a value, not \<^verbatim>\<open>undefined\<close> or \<^verbatim>\<open>null\<close>, so the
  optional field \<^verbatim>\<open>user\<close> is set exactly when it is \<open>Some\<close>; still the value can be
  falsy, and \<^verbatim>\<open>getUserOrFail\<close> tests it with \<^verbatim>\<open>if (!this.user)\<close>.
\<close>

datatype 'u real_user =
    UserObject 'u
  | UserString string
  | UserNumber int
  | UserBigInt int
  | UserBoolean bool

fun truthy_user :: "'u real_user \<Rightarrow> bool" where
  "truthy_user (UserObject x) = True"
| "truthy_user (UserString s) = (s \<noteq> [])"
| "truthy_user (UserNumber n) = (n \<noteq> 0)"
| "truthy_user (UserBigInt n) = (n \<noteq> 0)"
| "truthy_user (UserBoolean b) = b"

fun if_truthy_user :: "'u real_user option \<Rightarrow> 'u real_user option" where
  "if_truthy_user None = None"
| "if_truthy_user (Some u) = (if truthy_user u then Some u else None)"

text \<open>
  Modelled from the spec: the class \<^verbatim>\<open>RememberMeToken\<close> (\<^verbatim>\<open>./remember_me_token.js\<close>)
  is not among the sources. The guard reads \<^verbatim>\<open>identifier\<close> (here
  \<open>tokenIdentifier\<close>, the shorter word being reserved), \<^verbatim>\<open>tokenableId\<close> and
  \<^verbatim>\<open>value\<close> (here \<open>secretValue\<close>); the value is a one-time secret that a token
  may not carry (the guard writes \<^verbatim>\<open>value!.release()\<close>), hence an option.
\<close>

record token =
  tokenIdentifier :: string
  tokenableId :: uid
  secretValue :: "string option"

text \<open>The provider's view of a user: \<^verbatim>\<open>getId()\<close> and \<^verbatim>\<open>getOriginal()\<close>.\<close>

record 'u provider_user =
  getId :: uid
  getOriginal :: "'u real_user"

record 'u provider =
  findById :: "uid \<Rightarrow> 'u provider_user option"
  verifyRememberToken :: "string \<Rightarrow> token option"
  recycleRememberToken :: "'u real_user \<Rightarrow> string \<Rightarrow> token"
  createUserForGuard :: "'u real_user \<Rightarrow> 'u provider_user"

text \<open>
  The failures: \<^verbatim>\<open>E_UNAUTHORIZED_ACCESS\<close> with its message and \<^verbatim>\<open>guardDriverName\<close>,
  the \<^verbatim>\<open>RuntimeException\<close> of \<^verbatim>\<open>#getSession\<close> with its message, and the
  \<^verbatim>\<open>TypeError\<close> of calling \<^verbatim>\<open>release\<close> on an undefined value.
\<close>

datatype error =
    E_UNAUTHORIZED_ACCESS string string
  | RuntimeException string
  | TypeError

fun is_unauthorized :: "error \<Rightarrow> bool" where
  "is_unauthorized (E_UNAUTHORIZED_ACCESS m d) = True"
| "is_unauthorized (RuntimeException m) = False"
| "is_unauthorized TypeError = False"

text \<open>The three events, with guard name and session id first.\<close>

datatype 'u event =
    authentication_attempted string string
  | authentication_succeeded string string "'u real_user" "token option"
  | authentication_failed string string error

datatype 'u effect =
    Emit "'u event"
  | SessionGet string
  | SessionPut string uid
  | SessionRegenerate
  | CookieRead string
  | CookieWrite string string
  | FindById uid
  | VerifyRememberToken string
  | RecycleRememberToken "'u real_user" string
  | CreateUserForGuard "'u real_user"

subsection \<open>The world and the guard\<close>

record session_store =
  sessionId :: string
  entries :: "string \<rightharpoonup> uid"

text \<open>
  \<open>session\<close> is \<open>None\<close> when the context has no \<^verbatim>\<open>session\<close> property.
  \<open>freshSessionId\<close> is the id a regeneration moves to.
\<close>

record 'u world =
  session :: "session_store option"
  requestCookies :: "string \<rightharpoonup> string"
  freshSessionId :: "string \<Rightarrow> string"
  trace :: "'u effect list"

record 'u guard =
  name :: string
  authenticationAttempted :: bool
  isAuthenticated :: bool
  viaRemember :: bool
  attemptedViaRemember :: bool
  isLoggedOut :: bool
  user :: "'u real_user option"

definition driverName :: string where
  "driverName = ''session''"

text \<open>The constructor, with the field initialisers of the class.\<close>

definition SessionGuard :: "string \<Rightarrow> 'u guard" where
  "SessionGuard n =
     \<lparr> name = n, authenticationAttempted = False, isAuthenticated = False,
       viaRemember = False, attemptedViaRemember = False, isLoggedOut = False,
       user = None \<rparr>"

definition sessionKeyName :: "'u guard \<Rightarrow> string" where
  "sessionKeyName g = ''auth_'' @ name g"

definition rememberMeKeyName :: "'u guard \<Rightarrow> string" where
  "rememberMeKeyName g = ''remember_'' @ name g"

definition record_effect :: "'u effect \<Rightarrow> 'u world \<Rightarrow> 'u world" where
  "record_effect e w = w\<lparr>trace := trace w @ [e]\<rparr>"

subsection \<open>The private methods\<close>

definition session_missing_message :: string where
  "session_missing_message =
     ''Cannot authenticate user. Install and configure '' @ [CHR 0x22] @
     ''@adonisjs/session'' @ [CHR 0x22] @ '' package''"

definition getSession :: "'u world \<Rightarrow> error + session_store" where
  "getSession w =
     (case session w of
        None \<Rightarrow> Inl (RuntimeException session_missing_message)
      | Some s \<Rightarrow> Inr s)"

definition authenticationFailed :: "'u guard \<Rightarrow> 'u world \<Rightarrow> string \<Rightarrow> error \<times> 'u world" where
  "authenticationFailed g w sid =
     (let err = E_UNAUTHORIZED_ACCESS ''Invalid or expired user session'' driverName
      in (err, record_effect (Emit (authentication_failed (name g) sid err)) w))"

definition authenticationSucceeded ::
  "'u guard \<Rightarrow> 'u world \<Rightarrow> string \<Rightarrow> 'u real_user \<Rightarrow> token option \<Rightarrow> 'u guard \<times> 'u world" where
  "authenticationSucceeded g w sid u rememberMeToken =
     (g\<lparr>user := Some u, isAuthenticated := True, isLoggedOut := False,
        viaRemember := (rememberMeToken \<noteq> None)\<rparr>,
      record_effect (Emit (authentication_succeeded (name g) sid u rememberMeToken)) w)"

definition authenticateViaId ::
  "'u provider \<Rightarrow> 'u guard \<Rightarrow> 'u world \<Rightarrow> uid \<Rightarrow> string
     \<Rightarrow> (error + 'u real_user option) \<times> 'u guard \<times> 'u world" where
  "authenticateViaId p g w userId sid =
     (let w1 = record_effect (FindById userId) w
      in case findById p userId of
           None \<Rightarrow>
             (let (err, w2) = authenticationFailed g w1 sid in (Inl err, g, w2))
         | Some providerUser \<Rightarrow>
             (let (g1, w2) = authenticationSucceeded g w1 sid (getOriginal providerUser) None
              in (Inr (user g1), g1, w2)))"

definition createSessionForUser :: "'u guard \<Rightarrow> 'u world \<Rightarrow> uid \<Rightarrow> error + 'u world" where
  "createSessionForUser g w userId =
     (case getSession w of
        Inl err \<Rightarrow> Inl err
      | Inr s \<Rightarrow>
          (let s1 = s\<lparr>entries := (entries s)(sessionKeyName g \<mapsto> userId)\<rparr>;
               w1 = record_effect (SessionPut (sessionKeyName g) userId) w;
               s2 = s1\<lparr>sessionId := freshSessionId w (sessionId s1)\<rparr>;
               w2 = record_effect SessionRegenerate w1
           in Inr (w2\<lparr>session := Some s2\<rparr>)))"

text \<open>
  In \<^verbatim>\<open>#authenticateViaRememberCookie\<close>, \<^verbatim>\<open>this.user!\<close> is read right after
  \<^verbatim>\<open>#authenticationSucceeded\<close> stored it: it is the provider user's original, \<open>u\<close>
  below. The cookie options (\<^verbatim>\<open>httpOnly\<close>) are not part of the trace.
\<close>

definition createRememberMeCookie :: "'u guard \<Rightarrow> 'u world \<Rightarrow> string \<Rightarrow> 'u world" where
  "createRememberMeCookie g w v = record_effect (CookieWrite (rememberMeKeyName g) v) w"

definition authenticateViaRememberCookie ::
  "'u provider \<Rightarrow> 'u guard \<Rightarrow> 'u world \<Rightarrow> string \<Rightarrow> string
     \<Rightarrow> (error + 'u real_user option) \<times> 'u guard \<times> 'u world" where
  "authenticateViaRememberCookie p g w rememberMeCookie sid =
     (let w1 = record_effect (VerifyRememberToken rememberMeCookie) w
      in case verifyRememberToken p rememberMeCookie of
           None \<Rightarrow>
             (let (err, w2) = authenticationFailed g w1 sid in (Inl err, g, w2))
         | Some tok \<Rightarrow>
             (let w2 = record_effect (FindById (tokenableId tok)) w1
              in case findById p (tokenableId tok) of
                   None \<Rightarrow>
                     (let (err, w3) = authenticationFailed g w2 sid in (Inl err, g, w3))
                 | Some providerUser \<Rightarrow>
                     (let userId = getId providerUser
                      in case createSessionForUser g w2 userId of
                           Inl err \<Rightarrow> (Inl err, g, w2)
                         | Inr w3 \<Rightarrow>
                             (let (g1, w4) =
                                    authenticationSucceeded g w3 sid
                                      (getOriginal providerUser) (Some tok);
                                  u = getOriginal providerUser;
                                  w5 = record_effect
                                         (RecycleRememberToken u (tokenIdentifier tok)) w4;
                                  recycledToken =
                                    recycleRememberToken p u (tokenIdentifier tok)
                              in case secretValue recycledToken of
                                   None \<Rightarrow> (Inl TypeError, g1, w5)
                                 | Some v \<Rightarrow>
                                     (Inr (user g1), g1,
                                      createRememberMeCookie g1 w5 v)))))"

subsection \<open>The public methods\<close>

definition getUserOrFail :: "'u guard \<Rightarrow> error + 'u real_user" where
  "getUserOrFail g =
     (case if_truthy_user (user g) of
        None \<Rightarrow> Inl (E_UNAUTHORIZED_ACCESS ''Invalid or expired user session'' driverName)
      | Some u \<Rightarrow> Inr u)"

text \<open>
  \<^verbatim>\<open>authenticate\<close> resolves to the user, or to \<^verbatim>\<open>undefined\<close> (\<open>Inr None\<close>) when
  neither branch is taken and the function body ends. The tests \<^verbatim>\<open>if (authUserId)\<close>
  and \<^verbatim>\<open>if (rememberMeCookie)\<close> are the two truthiness filters; the session id handed
  to the helpers is the one read before any regeneration.
\<close>

definition authenticate ::
  "'u provider \<Rightarrow> 'u guard \<Rightarrow> 'u world \<Rightarrow> (error + 'u real_user option) \<times> 'u guard \<times> 'u world" where
  "authenticate p g w =
     (if authenticationAttempted g then
        (case getUserOrFail g of
           Inl err \<Rightarrow> (Inl err, g, w)
         | Inr u \<Rightarrow> (Inr (Some u), g, w))
      else
        (let g1 = g\<lparr>authenticationAttempted := True\<rparr>
         in case getSession w of
              Inl err \<Rightarrow> (Inl err, g1, w)
            | Inr s \<Rightarrow>
                (let w1 = record_effect
                            (Emit (authentication_attempted (name g1) (sessionId s))) w;
                     w2 = record_effect (SessionGet (sessionKeyName g1)) w1
                 in case if_truthy_uid (entries s (sessionKeyName g1)) of
                      Some authUserId \<Rightarrow> authenticateViaId p g1 w2 authUserId (sessionId s)
                    | None \<Rightarrow>
                        (let w3 = record_effect (CookieRead (rememberMeKeyName g1)) w2
                         in case if_truthy_string
                                   (requestCookies w (rememberMeKeyName g1)) of
                              Some rememberMeCookie \<Rightarrow>
                                authenticateViaRememberCookie p
                                  (g1\<lparr>attemptedViaRemember := True\<rparr>) w3
                                  rememberMeCookie (sessionId s)
                            | None \<Rightarrow> (Inr None, g1, w3)))))"

definition check :: "'u provider \<Rightarrow> 'u guard \<Rightarrow> 'u world \<Rightarrow> (error + bool) \<times> 'u guard \<times> 'u world" where
  "check p g w =
     (case authenticate p g w of
        (Inr r, g1, w1) \<Rightarrow> (Inr True, g1, w1)
      | (Inl err, g1, w1) \<Rightarrow>
          (if is_unauthorized err then (Inr False, g1, w1) else (Inl err, g1, w1)))"

definition authenticateAsClient ::
  "'u provider \<Rightarrow> 'u guard \<Rightarrow> 'u world \<Rightarrow> 'u real_user
     \<Rightarrow> (error + (string \<times> uid) list) \<times> 'u guard \<times> 'u world" where
  "authenticateAsClient p g w u =
     (let w1 = record_effect (CreateUserForGuard u) w;
          providerUser = createUserForGuard p u;
          userId = getId providerUser
      in (Inr [(sessionKeyName g, userId)], g, w1))"

subsection \<open>Observations on results and traces\<close>

text \<open>
  The unauthorized error that \<^verbatim>\<open>#authenticationFailed\<close> and \<^verbatim>\<open>getUserOrFail\<close>
  both construct: same class, same message, same driver name.
\<close>

definition unauthorized :: error where
  "unauthorized = E_UNAUTHORIZED_ACCESS ''Invalid or expired user session'' driverName"

fun is_failed_event :: "'u effect \<Rightarrow> bool" where
  "is_failed_event (Emit (authentication_failed n sid err)) = True"
| "is_failed_event e = False"

fun is_succeeded_event :: "'u effect \<Rightarrow> bool" where
  "is_succeeded_event (Emit (authentication_succeeded n sid u t)) = True"
| "is_succeeded_event e = False"

fun is_event :: "'u effect \<Rightarrow> bool" where
  "is_event (Emit ev) = True"
| "is_event e = False"

text \<open>Writes to the session store and to the response cookies.\<close>

fun is_mutation :: "'u effect \<Rightarrow> bool" where
  "is_mutation (SessionPut k i) = True"
| "is_mutation SessionRegenerate = True"
| "is_mutation (CookieWrite k v) = True"
| "is_mutation e = False"

definition failed_events :: "'u effect list \<Rightarrow> nat" where
  "failed_events t = length (filter is_failed_event t)"

definition succeeded_events :: "'u effect list \<Rightarrow> nat" where
  "succeeded_events t = length (filter is_succeeded_event t)"

text \<open>
  Calling \<^verbatim>\<open>authenticate\<close> again and again on the same guard: \<open>authenticate_again p k\<close>
  is the outcome of call number \<open>k + 1\<close>.
\<close>

primrec authenticate_again ::
  "'u provider \<Rightarrow> nat \<Rightarrow> 'u guard \<Rightarrow> 'u world
     \<Rightarrow> (error + 'u real_user option) \<times> 'u guard \<times> 'u world" where
  "authenticate_again p 0 g w = authenticate p g w"
| "authenticate_again p (Suc k) g w =
     (case authenticate p g w of (r, g1, w1) \<Rightarrow> authenticate_again p k g1 w1)"

text \<open>
  Sequences of calls of the public methods on one guard; the value each call returns or
  throws is dropped, the guard and the world are threaded through.
\<close>

datatype 'u call =
    CallAuthenticate
  | CallCheck
  | CallGetUserOrFail
  | CallAuthenticateAsClient "'u real_user"

fun call_step :: "'u provider \<Rightarrow> 'u call \<Rightarrow> 'u guard \<times> 'u world \<Rightarrow> 'u guard \<times> 'u world" where
  "call_step p CallAuthenticate (g, w) = snd (authenticate p g w)"
| "call_step p CallCheck (g, w) = snd (check p g w)"
| "call_step p CallGetUserOrFail (g, w) = (g, w)"
| "call_step p (CallAuthenticateAsClient u) (g, w) = snd (authenticateAsClient p g w u)"

fun run_calls :: "'u provider \<Rightarrow> 'u call list \<Rightarrow> 'u guard \<times> 'u world \<Rightarrow> 'u guard \<times> 'u world" where
  "run_calls p [] gw = gw"
| "run_calls p (c # cs) gw = run_calls p cs (call_step p c gw)"

subsection \<open>A concrete request\<close>

text \<open>
  A provider with four users, 42, 7, 0 and 3, one remember token bound to user 7 and one
  bound to a user 9 that no longer exists; a recycled token carries a new value. Three
  users are objects, given by their names; the original of user 3 is the empty string.
\<close>

definition demo_provider :: "string provider" where
  "demo_provider =
     \<lparr> findById = (\<lambda>i. if i = IdNumber 42 then Some \<lparr>getId = IdNumber 42, getOriginal = UserObject ''alice''\<rparr>
                       else if i = IdNumber 7 then Some \<lparr>getId = IdNumber 7, getOriginal = UserObject ''bob''\<rparr>
                       else if i = IdNumber 0 then Some \<lparr>getId = IdNumber 0, getOriginal = UserObject ''root''\<rparr>
                       else if i = IdNumber 3 then Some \<lparr>getId = IdNumber 3, getOriginal = UserString []\<rparr>
                       else None),
       verifyRememberToken =
         (\<lambda>c. if c = ''t1.s1''
                then Some \<lparr>tokenIdentifier = ''t1'', tokenableId = IdNumber 7, secretValue = None\<rparr>
              else if c = ''t9.s9''
                then Some \<lparr>tokenIdentifier = ''t9'', tokenableId = IdNumber 9, secretValue = None\<rparr>
              else None),
       recycleRememberToken =
         (\<lambda>u i. \<lparr>tokenIdentifier = ''t2'', tokenableId = IdNumber 7,
                   secretValue = Some ''t2.s2''\<rparr>),
       createUserForGuard = (\<lambda>u. \<lparr>getId = IdNumber 7, getOriginal = u\<rparr>) \<rparr>"

text \<open>
  A request with a session that holds the given entries (by key) and with the given
  request cookies; nothing has happened yet.
\<close>

definition demo_world ::
  "(string \<rightharpoonup> uid) \<Rightarrow> (string \<rightharpoonup> string) \<Rightarrow> string world" where
  "demo_world es cs =
     \<lparr> session = Some \<lparr>sessionId = ''sid1'', entries = es\<rparr>,
       requestCookies = cs,
       freshSessionId = (\<lambda>i. i @ ''_new''),
       trace = [] \<rparr>"

text \<open>The same request on a context without the session property.\<close>

definition demo_world_no_session :: "string world" where
  "demo_world_no_session =
     \<lparr> session = None, requestCookies = Map.empty,
       freshSessionId = (\<lambda>i. i @ ''_new''), trace = [] \<rparr>"

text \<open>The requests used below, all for the guard named \<open>web\<close>.\<close>

definition world_no_credentials :: "string world" where
  "world_no_credentials = demo_world Map.empty Map.empty"

definition world_session_42 :: "string world" where
  "world_session_42 = demo_world [''auth_web'' \<mapsto> IdNumber 42] Map.empty"

definition world_session_3 :: "string world" where
  "world_session_3 = demo_world [''auth_web'' \<mapsto> IdNumber 3] Map.empty"

definition world_session_stale :: "string world" where
  "world_session_stale = demo_world [''auth_web'' \<mapsto> IdNumber 5] Map.empty"

definition world_session_zero :: "string world" where
  "world_session_zero = demo_world [''auth_web'' \<mapsto> IdNumber 0] Map.empty"

definition world_remember :: "string world" where
  "world_remember = demo_world Map.empty [''remember_web'' \<mapsto> ''t1.s1'']"

definition world_remember_bogus :: "string world" where
  "world_remember_bogus = demo_world Map.empty [''remember_web'' \<mapsto> ''bogus'']"

definition world_remember_orphan :: "string world" where
  "world_remember_orphan = demo_world Map.empty [''remember_web'' \<mapsto> ''t9.s9'']"

definition world_remember_empty :: "string world" where
  "world_remember_empty = demo_world Map.empty [''remember_web'' \<mapsto> []]"


fun is_cookie_read :: "'u effect \<Rightarrow> bool" where
  "is_cookie_read (CookieRead k) = True"
| "is_cookie_read e = False"

section \<open>The paths of \<^verbatim>\<open>authenticate\<close>\<close>

text \<open>
  One equation for each path through \<^verbatim>\<open>authenticate\<close>: the value returned or thrown,
  the guard afterwards and the world afterwards, with every call to a collaborator in
  the order the code makes it.
\<close>

lemmas guard_defs =
  authenticate_def authenticateViaId_def authenticateViaRememberCookie_def
  authenticationFailed_def authenticationSucceeded_def createSessionForUser_def
  createRememberMeCookie_def getSession_def getUserOrFail_def record_effect_def
  sessionKeyName_def rememberMeKeyName_def unauthorized_def Let_def

lemma authenticate_memoized:
  "authenticationAttempted g \<Longrightarrow>
   authenticate p g w =
     ((case if_truthy_user (user g) of
         None \<Rightarrow> Inl unauthorized | Some u \<Rightarrow> Inr (Some u)), g, w)"
  by (simp add: authenticate_def getUserOrFail_def unauthorized_def split: option.splits)

lemma authenticate_without_session:
  "\<not> authenticationAttempted g \<Longrightarrow> session w = None \<Longrightarrow>
   authenticate p g w =
     (Inl (RuntimeException session_missing_message), g\<lparr>authenticationAttempted := True\<rparr>, w)"
  by (simp add: authenticate_def getSession_def)

lemma authenticate_no_credentials_eq:
  "\<not> authenticationAttempted g \<Longrightarrow> session w = Some s \<Longrightarrow>
   if_truthy_uid (entries s (sessionKeyName g)) = None \<Longrightarrow>
   if_truthy_string (requestCookies w (rememberMeKeyName g)) = None \<Longrightarrow>
   authenticate p g w =
     (Inr None, g\<lparr>authenticationAttempted := True\<rparr>,
      w\<lparr>trace := trace w @
           [Emit (authentication_attempted (name g) (sessionId s)),
            SessionGet (sessionKeyName g), CookieRead (rememberMeKeyName g)]\<rparr>)"
  by (simp add: guard_defs)

lemma authenticate_by_id_found:
  "\<not> authenticationAttempted g \<Longrightarrow> session w = Some s \<Longrightarrow>
   if_truthy_uid (entries s (sessionKeyName g)) = Some i \<Longrightarrow>
   findById p i = Some pu \<Longrightarrow>
   authenticate p g w =
     (Inr (Some (getOriginal pu)),
      g\<lparr>authenticationAttempted := True, user := Some (getOriginal pu),
        isAuthenticated := True, isLoggedOut := False, viaRemember := False\<rparr>,
      w\<lparr>trace := trace w @
           [Emit (authentication_attempted (name g) (sessionId s)),
            SessionGet (sessionKeyName g), FindById i,
            Emit (authentication_succeeded (name g) (sessionId s) (getOriginal pu) None)]\<rparr>)"
  by (simp add: guard_defs)

lemma authenticate_by_id_missing:
  "\<not> authenticationAttempted g \<Longrightarrow> session w = Some s \<Longrightarrow>
   if_truthy_uid (entries s (sessionKeyName g)) = Some i \<Longrightarrow>
   findById p i = None \<Longrightarrow>
   authenticate p g w =
     (Inl unauthorized, g\<lparr>authenticationAttempted := True\<rparr>,
      w\<lparr>trace := trace w @
           [Emit (authentication_attempted (name g) (sessionId s)),
            SessionGet (sessionKeyName g), FindById i,
            Emit (authentication_failed (name g) (sessionId s) unauthorized)]\<rparr>)"
  by (simp add: guard_defs)

lemma authenticate_cookie_rejected:
  "\<not> authenticationAttempted g \<Longrightarrow> session w = Some s \<Longrightarrow>
   if_truthy_uid (entries s (sessionKeyName g)) = None \<Longrightarrow>
   if_truthy_string (requestCookies w (rememberMeKeyName g)) = Some c \<Longrightarrow>
   verifyRememberToken p c = None \<Longrightarrow>
   authenticate p g w =
     (Inl unauthorized, g\<lparr>authenticationAttempted := True, attemptedViaRemember := True\<rparr>,
      w\<lparr>trace := trace w @
           [Emit (authentication_attempted (name g) (sessionId s)),
            SessionGet (sessionKeyName g), CookieRead (rememberMeKeyName g),
            VerifyRememberToken c,
            Emit (authentication_failed (name g) (sessionId s) unauthorized)]\<rparr>)"
  by (simp add: guard_defs)

lemma authenticate_cookie_user_missing:
  "\<not> authenticationAttempted g \<Longrightarrow> session w = Some s \<Longrightarrow>
   if_truthy_uid (entries s (sessionKeyName g)) = None \<Longrightarrow>
   if_truthy_string (requestCookies w (rememberMeKeyName g)) = Some c \<Longrightarrow>
   verifyRememberToken p c = Some t \<Longrightarrow> findById p (tokenableId t) = None \<Longrightarrow>
   authenticate p g w =
     (Inl unauthorized, g\<lparr>authenticationAttempted := True, attemptedViaRemember := True\<rparr>,
      w\<lparr>trace := trace w @
           [Emit (authentication_attempted (name g) (sessionId s)),
            SessionGet (sessionKeyName g), CookieRead (rememberMeKeyName g),
            VerifyRememberToken c, FindById (tokenableId t),
            Emit (authentication_failed (name g) (sessionId s) unauthorized)]\<rparr>)"
  by (simp add: guard_defs)


text \<open>Facts for evaluating the concrete requests, and what a first call leaves behind.\<close>

lemmas demo_defs =
  demo_provider_def demo_world_def demo_world_no_session_def SessionGuard_def
  world_no_credentials_def world_session_42_def world_session_3_def world_session_stale_def
  world_session_zero_def world_remember_def world_remember_bogus_def
  world_remember_orphan_def world_remember_empty_def
  driverName_def failed_events_def succeeded_events_def check_def

lemma fresh_not_attempted: "\<not> authenticationAttempted (SessionGuard n)"
  by (simp add: SessionGuard_def)

lemma first_call_outcome:
  assumes "\<not> authenticationAttempted g" and "authenticate p g w = (r, g1, w1)"
  shows "authenticationAttempted g1"
    and "r = Inr (Some u) \<Longrightarrow> user g1 = Some u \<and> isAuthenticated g1"
    and "r = Inr None \<Longrightarrow> user g1 = user g \<and> isAuthenticated g1 = isAuthenticated g"
    and "r = Inl e \<Longrightarrow> is_unauthorized e \<Longrightarrow>
           e = unauthorized \<and> user g1 = user g \<and> isAuthenticated g1 = isAuthenticated g"
    and "r = Inl (RuntimeException m) \<Longrightarrow> user g1 = user g \<and> isAuthenticated g1 = isAuthenticated g"
    and "r = Inl TypeError \<Longrightarrow> user g1 \<noteq> None \<and> isAuthenticated g1"
  using assms
  by (auto simp: guard_defs split: option.splits sum.splits if_splits prod.splits)

section \<open>Memoization\<close>

text \<open>
  Claim C1, as amended. On a freshly constructed guard, whatever the first call of
  \<^verbatim>\<open>authenticate\<close> returned or threw, the second call answers from the guard alone:
  it returns the cached user if one is set and truthy and throws the unauthorized error
  otherwise, and it leaves the guard and the world (session store, cookies, trace of
  provider calls and events) exactly as the first call left them. If the first call
  returned a truthy user or threw the unauthorized error, the second call yields the
  same result.
\<close>

theorem authenticate_twice:
  assumes "authenticate p (SessionGuard n) w = (r, g1, w1)"
  shows "authenticate p g1 w1 =
           ((case user g1 of
               None \<Rightarrow> Inl unauthorized
             | Some u \<Rightarrow> if truthy_user u then Inr (Some u) else Inl unauthorized), g1, w1)
         \<and> ((\<exists>u. r = Inr (Some u) \<and> truthy_user u) \<or> r = Inl unauthorized \<longrightarrow>
              authenticate p g1 w1 = (r, g1, w1))"
proof -
  note fc = first_call_outcome [OF fresh_not_attempted assms]
  have "authenticate p g1 w1 =
      ((case if_truthy_user (user g1) of
          None \<Rightarrow> Inl unauthorized | Some u \<Rightarrow> Inr (Some u)), g1, w1)"
    using fc(1) by (rule authenticate_memoized)
  then have memo: "authenticate p g1 w1 =
      ((case user g1 of
          None \<Rightarrow> Inl unauthorized
        | Some u \<Rightarrow> if truthy_user u then Inr (Some u) else Inl unauthorized), g1, w1)"
    by (cases "user g1") simp_all
  have fresh: "user (SessionGuard n) = None" by (simp add: SessionGuard_def)
  have same: "authenticate p g1 w1 = (r, g1, w1)"
    if "(\<exists>u. r = Inr (Some u) \<and> truthy_user u) \<or> r = Inl unauthorized"
    using that
  proof
    assume "\<exists>u. r = Inr (Some u) \<and> truthy_user u"
    then obtain u where r: "r = Inr (Some u)" and t: "truthy_user u" by blast
    with fc(2) have "user g1 = Some u" by simp
    with memo r t show ?thesis by simp
  next
    assume r: "r = Inl unauthorized"
    with fc(4) [of unauthorized] fresh have "user g1 = None"
      by (simp add: unauthorized_def)
    with memo r show ?thesis by simp
  qed
  from memo same show ?thesis by blast
qed

text \<open>
  The session holds user id 42: both calls return the user, and the second leaves the
  guard and the world as the first left them.
\<close>

theorem authenticate_twice_witness:
  "fst (authenticate demo_provider (SessionGuard ''web'') world_session_42)
     = Inr (Some (UserObject ''alice''))
   \<and> authenticate_again demo_provider (Suc 0) (SessionGuard ''web'') world_session_42
       = authenticate demo_provider (SessionGuard ''web'') world_session_42"
proof -
  let ?a = "authenticate demo_provider (SessionGuard ''web'') world_session_42"
  have a: "?a = (Inr (Some (UserObject ''alice'')), fst (snd ?a), snd (snd ?a))"
    by (simp add: demo_defs guard_defs)
  have t: "truthy_user (UserObject ''alice'' :: string real_user)" by simp
  from authenticate_twice [OF a] t
  have "authenticate demo_provider (fst (snd ?a)) (snd (snd ?a)) =
          (Inr (Some (UserObject ''alice'')), fst (snd ?a), snd (snd ?a))"
    by blast
  with a have "authenticate demo_provider (fst (snd ?a)) (snd (snd ?a)) = ?a" by simp
  moreover have "authenticate_again demo_provider (Suc 0) (SessionGuard ''web'') world_session_42
      = authenticate demo_provider (fst (snd ?a)) (snd (snd ?a))"
    by (simp add: case_prod_beta)
  moreover have "fst ?a = Inr (Some (UserObject ''alice''))"
    by (subst a) simp
  ultimately show ?thesis by simp
qed

text \<open>
  Claim C1 as stated fails on three requests. On a context without session the first
  call throws the runtime exception of \<^verbatim>\<open>#getSession\<close> and the second the
  unauthorized error. With a session but neither a session id nor a remember cookie, the
  case the claim names, the first call resolves without a user and the second throws the
  unauthorized error. With the session id of a user whose original is the empty string,
  the first call returns that user and the second throws the unauthorized error.
\<close>

theorem authenticate_twice_differs:
  "fst (authenticate demo_provider (SessionGuard ''web'') demo_world_no_session)
     = Inl (RuntimeException session_missing_message)
   \<and> fst (authenticate_again demo_provider (Suc 0) (SessionGuard ''web'') demo_world_no_session)
       = Inl unauthorized
   \<and> fst (authenticate demo_provider (SessionGuard ''web'') world_no_credentials) = Inr None
   \<and> fst (authenticate_again demo_provider (Suc 0) (SessionGuard ''web'') world_no_credentials)
       = Inl unauthorized
   \<and> fst (authenticate demo_provider (SessionGuard ''web'') world_session_3)
       = Inr (Some (UserString []))
   \<and> fst (authenticate_again demo_provider (Suc 0) (SessionGuard ''web'') world_session_3)
       = Inl unauthorized"
  by (simp add: demo_defs guard_defs)

text \<open>A guard that has attempted authentication answers every later call from its own fields.\<close>

lemma authenticate_again_memoized:
  "authenticationAttempted g \<Longrightarrow> authenticate_again p k g w = authenticate p g w"
  by (induction k) (simp_all add: authenticate_memoized)

lemma check_memoized:
  "authenticationAttempted g \<Longrightarrow>
   check p g w = (Inr (if_truthy_user (user g) \<noteq> None), g, w)"
  by (simp add: check_def authenticate_memoized unauthorized_def split: option.splits)

section \<open>Failure events\<close>

text \<open>
  Claim C2, as amended. A first call of \<^verbatim>\<open>authenticate\<close> (authentication not yet
  attempted) emits exactly one \<^verbatim>\<open>authentication_failed\<close> event if it throws an
  unauthorized error, and none if it returns or throws anything else: the number of
  failure events it adds to the trace is the number of unauthorized errors it throws.
  The event carries the error thrown, which is the one with the message and driver name
  of the guard, and emitting it is the last thing the call does. A memoized repeat call
  emits nothing and leaves the world unchanged, whatever it returns or throws.
  \<^verbatim>\<open>getUserOrFail\<close> reads the guard's \<^verbatim>\<open>user\<close> field only and has no emitter to
  call.
\<close>

theorem failed_event_only_on_first_call:
  assumes "authenticate p g w = (r, g1, w1)"
  shows "(if authenticationAttempted g then w1 = w
          else failed_events (trace w1) =
                 failed_events (trace w) + (if r = Inl unauthorized then 1 else 0))
         \<and> (\<forall>e. r = Inl e \<and> is_unauthorized e \<longrightarrow> e = unauthorized)
         \<and> (r = Inl unauthorized \<and> \<not> authenticationAttempted g \<longrightarrow>
              (\<exists>s. session w = Some s \<and>
                   last (trace w1) =
                     Emit (authentication_failed (name g) (sessionId s) unauthorized)))"
proof (cases "authenticationAttempted g")
  case True
  with assms show ?thesis
    by (auto simp: authenticate_def getUserOrFail_def unauthorized_def
          split: option.splits)
next
  case False
  with assms show ?thesis
    by (auto simp: guard_defs failed_events_def
          split: option.splits sum.splits if_splits prod.splits)
qed

text \<open>
  The session holds user id 5, which the provider does not know: the first call throws
  the unauthorized error after one failure event. The session holds user id 42, which it
  knows: the first call returns the user and the trace holds no failure event.
\<close>

theorem failed_event_only_on_first_call_witness:
  "fst (authenticate demo_provider (SessionGuard ''web'') world_session_stale) = Inl unauthorized
   \<and> failed_events
        (trace (snd (snd (authenticate demo_provider (SessionGuard ''web'') world_session_stale))))
       = 1
   \<and> last (trace (snd (snd (authenticate demo_provider (SessionGuard ''web'')
                               world_session_stale))))
       = Emit (authentication_failed ''web'' ''sid1'' unauthorized)
   \<and> fst (authenticate demo_provider (SessionGuard ''web'') world_session_42)
       = Inr (Some (UserObject ''alice''))
   \<and> failed_events
        (trace (snd (snd (authenticate demo_provider (SessionGuard ''web'') world_session_42))))
       = 0"
proof -
  let ?a = "authenticate demo_provider (SessionGuard ''web'') world_session_stale"
  let ?b = "authenticate demo_provider (SessionGuard ''web'') world_session_42"
  have a: "?a = (Inl unauthorized, fst (snd ?a), snd (snd ?a))"
    by (simp add: demo_defs guard_defs)
  have b: "?b = (Inr (Some (UserObject ''alice'')), fst (snd ?b), snd (snd ?b))"
    by (simp add: demo_defs guard_defs)
  have f: "\<not> authenticationAttempted (SessionGuard ''web'' :: string guard)"
    by (rule fresh_not_attempted)
  have s: "session world_session_stale =
             Some \<lparr>sessionId = ''sid1'', entries = [''auth_web'' \<mapsto> IdNumber 5]\<rparr>"
    "trace world_session_stale = []" "trace world_session_42 = []"
    by (simp_all add: demo_defs)
  have n: "name (SessionGuard ''web'' :: string guard) = ''web''"
    by (simp add: SessionGuard_def)
  from failed_event_only_on_first_call [OF a] f s n
  have 1: "failed_events (trace (snd (snd ?a))) = 1"
    "last (trace (snd (snd ?a))) = Emit (authentication_failed ''web'' ''sid1'' unauthorized)"
    by (auto simp: failed_events_def)
  from failed_event_only_on_first_call [OF b] f s
  have 2: "failed_events (trace (snd (snd ?b))) = 0"
    by (auto simp: failed_events_def)
  have "fst ?a = Inl unauthorized" by (subst a) simp
  moreover have "fst ?b = Inr (Some (UserObject ''alice''))" by (subst b) simp
  ultimately show ?thesis using 1 2 by simp
qed

text \<open>
  Claim C2 as stated fails on the memoized path and in \<^verbatim>\<open>getUserOrFail\<close>: with no
  credentials, the second call of \<^verbatim>\<open>authenticate\<close> throws the unauthorized error and
  the trace holds no failure event; \<^verbatim>\<open>getUserOrFail\<close> on a fresh guard throws it
  too.
\<close>

theorem unauthorized_without_failed_event:
  "fst (authenticate_again demo_provider (Suc 0) (SessionGuard ''web'') world_no_credentials)
     = Inl unauthorized
   \<and> failed_events
       (trace (snd (snd (authenticate_again demo_provider (Suc 0) (SessionGuard ''web'')
                           world_no_credentials)))) = 0
   \<and> getUserOrFail (SessionGuard ''web'' :: string guard) = Inl unauthorized"
  by (simp add: demo_defs guard_defs)

section \<open>No credentials\<close>

text \<open>
  Claim C7. The session exists and has no entry under \<open>auth_<name>\<close>, and the request
  has no cookie \<open>remember_<name>\<close>. Then the first call of \<^verbatim>\<open>authenticate\<close> on a
  fresh guard resolves to \<^verbatim>\<open>undefined\<close> without throwing; the guard only has its
  \<^verbatim>\<open>authenticationAttempted\<close> flag set (no user, \<^verbatim>\<open>isAuthenticated\<close> false); the
  call emitted the \<^verbatim>\<open>authentication_attempted\<close> event and no other, read the session
  key and the cookie, and wrote neither the session store nor a cookie.
\<close>

theorem authenticate_without_credentials:
  assumes "session w = Some s"
      and "entries s (''auth_'' @ n) = None"
      and "requestCookies w (''remember_'' @ n) = None"
  shows "authenticate p (SessionGuard n) w =
           (Inr None,
            \<lparr>name = n, authenticationAttempted = True, isAuthenticated = False,
             viaRemember = False, attemptedViaRemember = False, isLoggedOut = False,
             user = None\<rparr>,
            w\<lparr>trace := trace w @
                 [Emit (authentication_attempted n (sessionId s)),
                  SessionGet (''auth_'' @ n), CookieRead (''remember_'' @ n)]\<rparr>)
         \<and> filter is_event (trace (snd (snd (authenticate p (SessionGuard n) w)))) =
             filter is_event (trace w) @ [Emit (authentication_attempted n (sessionId s))]
         \<and> filter is_mutation (trace (snd (snd (authenticate p (SessionGuard n) w)))) =
             filter is_mutation (trace w)
         \<and> session (snd (snd (authenticate p (SessionGuard n) w))) = session w"
  using assms
    authenticate_no_credentials_eq [of "SessionGuard n" w s p]
  by (simp add: SessionGuard_def sessionKeyName_def rememberMeKeyName_def)

theorem authenticate_without_credentials_witness:
  "authenticate demo_provider (SessionGuard ''web'') world_no_credentials =
     (Inr None,
      \<lparr>name = ''web'', authenticationAttempted = True, isAuthenticated = False,
       viaRemember = False, attemptedViaRemember = False, isLoggedOut = False,
       user = None\<rparr>,
      world_no_credentials\<lparr>trace :=
           [Emit (authentication_attempted ''web'' ''sid1''),
            SessionGet ''auth_web'', CookieRead ''remember_web'']\<rparr>)"
  using authenticate_without_credentials
    [of world_no_credentials "\<lparr>sessionId = ''sid1'', entries = Map.empty\<rparr>" "''web''"
        demo_provider]
  by (simp add: world_no_credentials_def demo_world_def)

text \<open>
  Claim C9. In the same situation the first \<^verbatim>\<open>check\<close> returns true, although the
  guard is left with \<^verbatim>\<open>isAuthenticated\<close> false and no user; the second \<^verbatim>\<open>check\<close>
  on the same guard returns false and changes nothing.
\<close>

theorem check_true_then_false:
  assumes "session w = Some s"
      and "entries s (''auth_'' @ n) = None"
      and "requestCookies w (''remember_'' @ n) = None"
  shows "fst (check p (SessionGuard n) w) = Inr True
         \<and> \<not> isAuthenticated (fst (snd (check p (SessionGuard n) w)))
         \<and> user (fst (snd (check p (SessionGuard n) w))) = None
         \<and> check p (fst (snd (check p (SessionGuard n) w))) (snd (snd (check p (SessionGuard n) w)))
             = (Inr False, snd (check p (SessionGuard n) w))"
proof -
  let ?g1 = "(SessionGuard n :: 'a guard)\<lparr>authenticationAttempted := True\<rparr>"
  let ?w1 = "w\<lparr>trace := trace w @
                 [Emit (authentication_attempted n (sessionId s)),
                  SessionGet (''auth_'' @ n), CookieRead (''remember_'' @ n)]\<rparr>"
  have "authenticate p (SessionGuard n) w = (Inr None, ?g1, ?w1)"
    using assms authenticate_no_credentials_eq [of "SessionGuard n" w s p]
    by (simp add: SessionGuard_def sessionKeyName_def rememberMeKeyName_def)
  then have first: "check p (SessionGuard n) w = (Inr True, ?g1, ?w1)"
    by (simp add: check_def)
  have second: "check p ?g1 ?w1 = (Inr False, ?g1, ?w1)"
    by (simp add: check_memoized SessionGuard_def)
  show ?thesis
    unfolding first using second by (simp add: SessionGuard_def)
qed

theorem check_true_then_false_witness:
  "fst (check demo_provider (SessionGuard ''web'') world_no_credentials) = Inr True
   \<and> fst (check demo_provider
             (fst (snd (check demo_provider (SessionGuard ''web'') world_no_credentials)))
             (snd (snd (check demo_provider (SessionGuard ''web'') world_no_credentials))))
       = Inr False"
  using check_true_then_false
    [of world_no_credentials "\<lparr>sessionId = ''sid1'', entries = Map.empty\<rparr>" "''web''"
        demo_provider]
  by (simp add: world_no_credentials_def demo_world_def)

section \<open>Missing session\<close>

text \<open>
  Claim C10. The context has no session. The first call of \<^verbatim>\<open>authenticate\<close> on a
  fresh guard throws the runtime exception of \<^verbatim>\<open>#getSession\<close>, having set
  \<^verbatim>\<open>authenticationAttempted\<close> and emitted nothing (the world is unchanged). Every
  later call of \<^verbatim>\<open>authenticate\<close> (call number \<open>k + 2\<close>, for every \<open>k\<close>) throws the
  unauthorized error instead, and \<^verbatim>\<open>check\<close> on the guard returns false, whatever the
  world is by then; both leave the guard as it is.
\<close>

theorem missing_session_then_unauthorized:
  assumes "session w = None"
  shows "authenticate p (SessionGuard n) w =
           (Inl (RuntimeException session_missing_message),
            (SessionGuard n)\<lparr>authenticationAttempted := True\<rparr>, w)
         \<and> authenticate_again p (Suc k) (SessionGuard n) w =
             (Inl unauthorized, (SessionGuard n)\<lparr>authenticationAttempted := True\<rparr>, w)
         \<and> check p ((SessionGuard n)\<lparr>authenticationAttempted := True\<rparr>) w' =
             (Inr False, (SessionGuard n)\<lparr>authenticationAttempted := True\<rparr>, w')
         \<and> authenticate p ((SessionGuard n)\<lparr>authenticationAttempted := True\<rparr>) w' =
             (Inl unauthorized, (SessionGuard n)\<lparr>authenticationAttempted := True\<rparr>, w')"
  using assms authenticate_without_session [of "SessionGuard n" w p]
  by (simp add: authenticate_again_memoized authenticate_memoized check_memoized
        SessionGuard_def)

theorem missing_session_then_unauthorized_witness:
  "fst (authenticate demo_provider (SessionGuard ''web'') demo_world_no_session)
     = Inl (RuntimeException session_missing_message)
   \<and> trace (snd (snd (authenticate demo_provider (SessionGuard ''web'') demo_world_no_session)))
       = []
   \<and> fst (authenticate_again demo_provider (Suc 0) (SessionGuard ''web'') demo_world_no_session)
       = Inl unauthorized
   \<and> fst (authenticate_again demo_provider (Suc (Suc 0)) (SessionGuard ''web'') demo_world_no_session)
       = Inl unauthorized"
  using missing_session_then_unauthorized [of demo_world_no_session demo_provider "''web''" 0]
    missing_session_then_unauthorized [of demo_world_no_session demo_provider "''web''" "Suc 0"]
  by (simp add: demo_world_no_session_def)

section \<open>The silent check\<close>

text \<open>
  Claim C5. \<^verbatim>\<open>check\<close> runs \<^verbatim>\<open>authenticate\<close> and leaves the guard and the world as
  that call left them. It returns true exactly when \<^verbatim>\<open>authenticate\<close> completed
  without throwing, returns false exactly when \<^verbatim>\<open>authenticate\<close> threw an
  unauthorized error, and throws \<open>e\<close> exactly when \<^verbatim>\<open>authenticate\<close> threw \<open>e\<close> and
  \<open>e\<close> is of another kind; so it never throws an unauthorized error. In particular, on
  a first call without a session on the context it throws the runtime exception of
  \<^verbatim>\<open>#getSession\<close>.
\<close>

theorem check_outcomes:
  assumes "authenticate p g w = (r, g1, w1)"
  shows "(fst (check p g w) = Inr True) = (\<exists>u. r = Inr u)
         \<and> (fst (check p g w) = Inr False) = (\<exists>e. r = Inl e \<and> is_unauthorized e)
         \<and> (\<forall>e. (fst (check p g w) = Inl e) = (r = Inl e \<and> \<not> is_unauthorized e))
         \<and> snd (check p g w) = (g1, w1)
         \<and> (session w = None \<and> \<not> authenticationAttempted g \<longrightarrow>
              check p g w =
                (Inl (RuntimeException session_missing_message),
                 g\<lparr>authenticationAttempted := True\<rparr>, w))"
proof -
  have cfg: "session w = None \<and> \<not> authenticationAttempted g \<longrightarrow>
              check p g w =
                (Inl (RuntimeException session_missing_message),
                 g\<lparr>authenticationAttempted := True\<rparr>, w)"
    by (simp add: check_def authenticate_without_session)
  show ?thesis
  proof (cases r)
    case (Inl e)
    with assms cfg show ?thesis by (cases "is_unauthorized e") (auto simp: check_def)
  next
    case (Inr u)
    with assms cfg show ?thesis by (auto simp: check_def)
  qed
qed

text \<open>
  Three requests: a session id the provider does not know (false), a session id it
  knows (true), and a context without session (the runtime exception is thrown).
\<close>

theorem check_outcomes_witness:
  "check demo_provider (SessionGuard ''web'') world_session_stale =
     (Inr False, snd (authenticate demo_provider (SessionGuard ''web'') world_session_stale))
   \<and> check demo_provider (SessionGuard ''web'') world_session_42 =
     (Inr True, snd (authenticate demo_provider (SessionGuard ''web'') world_session_42))
   \<and> check demo_provider (SessionGuard ''web'') demo_world_no_session =
     (Inl (RuntimeException session_missing_message),
      (SessionGuard ''web'')\<lparr>authenticationAttempted := True\<rparr>, demo_world_no_session)"
proof -
  let ?a = "authenticate demo_provider (SessionGuard ''web'') world_session_stale"
  let ?b = "authenticate demo_provider (SessionGuard ''web'') world_session_42"
  let ?c = "authenticate demo_provider (SessionGuard ''web'') demo_world_no_session"
  have a: "?a = (Inl unauthorized, fst (snd ?a), snd (snd ?a))"
    by (simp add: demo_defs guard_defs)
  have b: "?b = (Inr (Some (UserObject ''alice'')), fst (snd ?b), snd (snd ?b))"
    by (simp add: demo_defs guard_defs)
  have c: "?c = (Inl (RuntimeException session_missing_message), fst (snd ?c), snd (snd ?c))"
    by (simp add: demo_defs guard_defs)
  have u: "is_unauthorized unauthorized" by (simp add: unauthorized_def)
  have n: "session demo_world_no_session = None"
    "\<not> authenticationAttempted (SessionGuard ''web'' :: string guard)"
    by (simp_all add: demo_defs)
  have 1: "check demo_provider (SessionGuard ''web'') world_session_stale = (Inr False, snd ?a)"
    using check_outcomes [OF a] u by (auto simp: prod_eq_iff)
  have 2: "check demo_provider (SessionGuard ''web'') world_session_42 = (Inr True, snd ?b)"
    using check_outcomes [OF b] by (auto simp: prod_eq_iff)
  have 3: "check demo_provider (SessionGuard ''web'') demo_world_no_session =
     (Inl (RuntimeException session_missing_message),
      (SessionGuard ''web'')\<lparr>authenticationAttempted := True\<rparr>, demo_world_no_session)"
    using check_outcomes [OF c] n by blast
  from 1 2 3 show ?thesis by simp
qed

section \<open>Authentication from the session id\<close>

text \<open>
  Claim C6, as amended. The session holds, under \<open>auth_<name>\<close>, a user id that is
  truthy in JavaScript: a non-empty string or a number or big integer other than 0 (the
  guard tests the value with \<^verbatim>\<open>if (authUserId)\<close>). If the provider's \<^verbatim>\<open>findById\<close>
  returns a user for it, the first call of \<^verbatim>\<open>authenticate\<close> on a fresh guard returns
  that user, sets \<^verbatim>\<open>user\<close> and \<^verbatim>\<open>isAuthenticated\<close>, leaves \<^verbatim>\<open>viaRemember\<close>
  false and emits the succeeded event; if \<^verbatim>\<open>findById\<close> returns null, the call throws
  the unauthorized error after one failure event. In both cases the remember cookie is
  not read.
\<close>

theorem authenticate_via_session_id:
  assumes "session w = Some s"
      and "entries s (''auth_'' @ n) = Some i"
      and "truthy_uid i"
  shows "(\<forall>pu. findById p i = Some pu \<longrightarrow>
            authenticate p (SessionGuard n) w =
              (Inr (Some (getOriginal pu)),
               \<lparr>name = n, authenticationAttempted = True, isAuthenticated = True,
                viaRemember = False, attemptedViaRemember = False, isLoggedOut = False,
                user = Some (getOriginal pu)\<rparr>,
               w\<lparr>trace := trace w @
                    [Emit (authentication_attempted n (sessionId s)),
                     SessionGet (''auth_'' @ n), FindById i,
                     Emit (authentication_succeeded n (sessionId s) (getOriginal pu) None)]\<rparr>))
         \<and> (findById p i = None \<longrightarrow>
            authenticate p (SessionGuard n) w =
              (Inl unauthorized,
               \<lparr>name = n, authenticationAttempted = True, isAuthenticated = False,
                viaRemember = False, attemptedViaRemember = False, isLoggedOut = False,
                user = None\<rparr>,
               w\<lparr>trace := trace w @
                    [Emit (authentication_attempted n (sessionId s)),
                     SessionGet (''auth_'' @ n), FindById i,
                     Emit (authentication_failed n (sessionId s) unauthorized)]\<rparr>))
         \<and> filter is_cookie_read (trace (snd (snd (authenticate p (SessionGuard n) w)))) =
             filter is_cookie_read (trace w)"
proof -
  have k: "if_truthy_uid (entries s (sessionKeyName (SessionGuard n :: 'a guard))) = Some i"
    using assms by (simp add: sessionKeyName_def SessionGuard_def)
  note found = authenticate_by_id_found [OF fresh_not_attempted assms(1) k]
  note missing = authenticate_by_id_missing [OF fresh_not_attempted assms(1) k]
  show ?thesis
  proof (cases "findById p i")
    case None
    from missing [OF None] show ?thesis
      by (simp add: None SessionGuard_def sessionKeyName_def)
  next
    case (Some pu)
    from found [OF Some] show ?thesis
      by (simp add: Some SessionGuard_def sessionKeyName_def)
  qed
qed

text \<open>
  User id 42 is known to the provider, user id 5 is not.
\<close>

theorem authenticate_via_session_id_witness:
  "authenticate demo_provider (SessionGuard ''web'') world_session_42 =
     (Inr (Some (UserObject ''alice'')),
      \<lparr>name = ''web'', authenticationAttempted = True, isAuthenticated = True,
       viaRemember = False, attemptedViaRemember = False, isLoggedOut = False,
       user = Some (UserObject ''alice'')\<rparr>,
      world_session_42\<lparr>trace :=
           [Emit (authentication_attempted ''web'' ''sid1''),
            SessionGet ''auth_web'', FindById (IdNumber 42),
            Emit (authentication_succeeded ''web'' ''sid1'' (UserObject ''alice'') None)]\<rparr>)
   \<and> fst (authenticate demo_provider (SessionGuard ''web'') world_session_stale)
       = Inl unauthorized"
  using authenticate_via_session_id
      [of world_session_42 "\<lparr>sessionId = ''sid1'', entries = [''auth_web'' \<mapsto> IdNumber 42]\<rparr>"
          "''web''" "IdNumber 42" demo_provider]
    authenticate_via_session_id
      [of world_session_stale "\<lparr>sessionId = ''sid1'', entries = [''auth_web'' \<mapsto> IdNumber 5]\<rparr>"
          "''web''" "IdNumber 5" demo_provider]
  by (simp add: world_session_42_def world_session_stale_def demo_world_def demo_provider_def)

text \<open>
  Claim C6 as stated fails for a falsy user id. The session holds the user id 0 and the
  provider knows user 0, yet \<^verbatim>\<open>authenticate\<close> takes the id for absent: it reads the
  remember cookie, finds none and resolves without a user.
\<close>

theorem falsy_session_id_is_skipped:
  "session world_session_zero =
     Some \<lparr>sessionId = ''sid1'', entries = [''auth_web'' \<mapsto> IdNumber 0]\<rparr>
   \<and> findById demo_provider (IdNumber 0) = Some \<lparr>getId = IdNumber 0, getOriginal = UserObject ''root''\<rparr>
   \<and> fst (authenticate demo_provider (SessionGuard ''web'') world_session_zero) = Inr None
   \<and> \<not> isAuthenticated (fst (snd (authenticate demo_provider (SessionGuard ''web'') world_session_zero)))
   \<and> filter is_cookie_read
        (trace (snd (snd (authenticate demo_provider (SessionGuard ''web'') world_session_zero))))
       = [CookieRead ''remember_web'']"
  by (simp add: demo_defs guard_defs)

section \<open>Authentication from the remember cookie\<close>

text \<open>
  Claim C4, as amended. The session has no user id entry and the remember cookie is a
  non-empty string (the guard tests it with \<^verbatim>\<open>if (rememberMeCookie)\<close>). If the
  provider does not verify the cookie, or verifies it as a token whose owner
  \<^verbatim>\<open>findById\<close> does not find, the first call of \<^verbatim>\<open>authenticate\<close> on a fresh guard
  throws the unauthorized error; no user is set; the session store is as before and
  neither a put, a regeneration nor a cookie write was made; exactly one failure event
  was emitted, as the last action of the call.
\<close>

theorem authenticate_remember_cookie_rejected:
  assumes "session w = Some s"
      and "entries s (''auth_'' @ n) = None"
      and "requestCookies w (''remember_'' @ n) = Some c"
      and "c \<noteq> []"
      and "verifyRememberToken p c = None \<or>
           (\<exists>t. verifyRememberToken p c = Some t \<and> findById p (tokenableId t) = None)"
  shows "fst (authenticate p (SessionGuard n) w) = Inl unauthorized
         \<and> fst (snd (authenticate p (SessionGuard n) w)) =
             \<lparr>name = n, authenticationAttempted = True, isAuthenticated = False,
              viaRemember = False, attemptedViaRemember = True, isLoggedOut = False,
              user = None\<rparr>
         \<and> session (snd (snd (authenticate p (SessionGuard n) w))) = session w
         \<and> filter is_mutation (trace (snd (snd (authenticate p (SessionGuard n) w)))) =
             filter is_mutation (trace w)
         \<and> failed_events (trace (snd (snd (authenticate p (SessionGuard n) w)))) =
             Suc (failed_events (trace w))
         \<and> last (trace (snd (snd (authenticate p (SessionGuard n) w)))) =
             Emit (authentication_failed n (sessionId s) unauthorized)"
proof -
  have k: "if_truthy_uid (entries s (sessionKeyName (SessionGuard n :: 'a guard))) = None"
    using assms(2) by (simp add: sessionKeyName_def SessionGuard_def)
  have r: "if_truthy_string (requestCookies w (rememberMeKeyName (SessionGuard n :: 'a guard)))
             = Some c"
    using assms(3,4) by (simp add: rememberMeKeyName_def SessionGuard_def)
  note rejected = authenticate_cookie_rejected [OF fresh_not_attempted assms(1) k r]
  note orphan = authenticate_cookie_user_missing [OF fresh_not_attempted assms(1) k r]
  from assms(5) show ?thesis
  proof
    assume "verifyRememberToken p c = None"
    from rejected [OF this] show ?thesis
      by (simp add: SessionGuard_def failed_events_def)
  next
    assume "\<exists>t. verifyRememberToken p c = Some t \<and> findById p (tokenableId t) = None"
    then obtain t where "verifyRememberToken p c = Some t" "findById p (tokenableId t) = None"
      by blast
    from orphan [OF this] show ?thesis
      by (simp add: SessionGuard_def failed_events_def)
  qed
qed

text \<open>
  A cookie the provider does not verify, and a cookie of a token whose owner is gone.
\<close>

theorem authenticate_remember_cookie_rejected_witness:
  "fst (authenticate demo_provider (SessionGuard ''web'') world_remember_bogus) = Inl unauthorized
   \<and> failed_events
        (trace (snd (snd (authenticate demo_provider (SessionGuard ''web'') world_remember_bogus))))
       = Suc 0
   \<and> fst (authenticate demo_provider (SessionGuard ''web'') world_remember_orphan) = Inl unauthorized
   \<and> failed_events
        (trace (snd (snd (authenticate demo_provider (SessionGuard ''web'') world_remember_orphan))))
       = Suc 0"
  using authenticate_remember_cookie_rejected
      [of world_remember_bogus "\<lparr>sessionId = ''sid1'', entries = Map.empty\<rparr>"
          "''web''" "''bogus''" demo_provider]
    authenticate_remember_cookie_rejected
      [of world_remember_orphan "\<lparr>sessionId = ''sid1'', entries = Map.empty\<rparr>"
          "''web''" "''t9.s9''" demo_provider]
  by (simp add: world_remember_bogus_def world_remember_orphan_def demo_world_def
        demo_provider_def failed_events_def)

text \<open>
  Claim C4 as stated fails for the empty cookie: the provider would not verify it, but
  the guard takes it for absent, never asks the provider, and resolves without a user,
  without a failure and without a failure event.
\<close>

theorem empty_remember_cookie_is_skipped:
  "session world_remember_empty = Some \<lparr>sessionId = ''sid1'', entries = Map.empty\<rparr>
   \<and> requestCookies world_remember_empty ''remember_web'' = Some []
   \<and> verifyRememberToken demo_provider [] = None
   \<and> fst (authenticate demo_provider (SessionGuard ''web'') world_remember_empty) = Inr None
   \<and> failed_events
        (trace (snd (snd (authenticate demo_provider (SessionGuard ''web'') world_remember_empty))))
       = 0"
  by (simp add: demo_defs guard_defs)



section \<open>The guard over a whole request\<close>

text \<open>
  Once authentication has been attempted, no public method changes the guard again, and
  no further succeeded event is emitted.
\<close>

lemma call_step_memoized:
  assumes "authenticationAttempted g"
  shows "fst (call_step p c (g, w)) = g"
    and "succeeded_events (trace (snd (call_step p c (g, w)))) = succeeded_events (trace w)"
  using assms
  by (cases c; simp add: authenticate_memoized check_memoized authenticateAsClient_def
        record_effect_def succeeded_events_def Let_def)+

text \<open>
  The first call of \<^verbatim>\<open>authenticate\<close> on a guard without user: afterwards the user is
  set exactly when \<^verbatim>\<open>isAuthenticated\<close> is, and at most one succeeded event was
  added.
\<close>

lemma first_call_invariant:
  assumes "\<not> authenticationAttempted g" and "user g = None" and "\<not> isAuthenticated g"
      and "authenticate p g w = (r, g1, w1)"
  shows "authenticationAttempted g1"
    and "(user g1 \<noteq> None) = isAuthenticated g1"
    and "succeeded_events (trace w1) \<le> Suc (succeeded_events (trace w))"
  using assms
  by (auto simp: guard_defs succeeded_events_def
        split: option.splits sum.splits if_splits prod.splits)

text \<open>
  The invariant of the guard, with \<open>k\<close> the number of succeeded events in the trace
  before the guard was made: it holds after one call, hence after any sequence.
\<close>

lemma call_step_invariant:
  assumes "(user g \<noteq> None) = isAuthenticated g"
      and "if authenticationAttempted g then succeeded_events (trace w) \<le> Suc k
           else user g = None \<and> succeeded_events (trace w) = k"
      and "call_step p c (g, w) = (g1, w1)"
  shows "(user g1 \<noteq> None) = isAuthenticated g1
         \<and> (if authenticationAttempted g1 then succeeded_events (trace w1) \<le> Suc k
             else user g1 = None \<and> succeeded_events (trace w1) = k)"
proof (cases "authenticationAttempted g")
  case True
  with call_step_memoized [OF True, of p c w] assms show ?thesis by simp
next
  case False
  with assms(1,2) have fresh: "user g = None" "\<not> isAuthenticated g"
    "succeeded_events (trace w) = k" by auto
  obtain r g' w' where a: "authenticate p g w = (r, g', w')"
    by (cases "authenticate p g w") auto
  note fc = first_call_invariant [OF False fresh(1,2) a]
  show ?thesis
  proof (cases c)
    case CallAuthenticate
    with assms(3) a have "g1 = g'" "w1 = w'" by simp_all
    with fc fresh(3) show ?thesis by simp
  next
    case CallCheck
    with assms(3) a have "g1 = g'" "w1 = w'"
      by (auto simp: check_def split: sum.splits if_splits)
    with fc fresh(3) show ?thesis by simp
  next
    case CallGetUserOrFail
    with assms False show ?thesis by simp
  next
    case (CallAuthenticateAsClient u)
    with assms(3) have "g1 = g" "succeeded_events (trace w1) = succeeded_events (trace w)"
      by (auto simp: authenticateAsClient_def record_effect_def succeeded_events_def Let_def)
    with assms(1,2) False show ?thesis by simp
  qed
qed

lemma run_calls_invariant:
  assumes "(user g \<noteq> None) = isAuthenticated g"
      and "if authenticationAttempted g then succeeded_events (trace w) \<le> Suc k
           else user g = None \<and> succeeded_events (trace w) = k"
      and "run_calls p cs (g, w) = (g1, w1)"
  shows "(user g1 \<noteq> None) = isAuthenticated g1
         \<and> (if authenticationAttempted g1 then succeeded_events (trace w1) \<le> Suc k
             else user g1 = None \<and> succeeded_events (trace w1) = k)"
  using assms
proof (induction cs arbitrary: g w)
  case Nil
  then show ?case by (auto split: if_splits)
next
  case (Cons c cs)
  obtain g' w' where s: "call_step p c (g, w) = (g', w')"
    by (cases "call_step p c (g, w)") auto
  from call_step_invariant [OF Cons.prems(1,2) s]
  have "(user g' \<noteq> None) = isAuthenticated g'"
    "if authenticationAttempted g' then succeeded_events (trace w') \<le> Suc k
     else user g' = None \<and> succeeded_events (trace w') = k" by simp_all
  moreover from Cons.prems(3) s have "run_calls p cs (g', w') = (g1, w1)" by simp
  ultimately show ?case by (rule Cons.IH)
qed

lemma run_calls_append:
  "run_calls p (cs @ cs') gw = run_calls p cs' (run_calls p cs gw)"
  by (induction cs arbitrary: gw) simp_all

lemma run_calls_memoized:
  "authenticationAttempted g \<Longrightarrow> fst (run_calls p cs (g, w)) = g"
proof (induction cs arbitrary: w)
  case Nil
  then show ?case by simp
next
  case (Cons c cs)
  from call_step_memoized(1) [OF Cons.prems, of p c w]
  obtain w' where "call_step p c (g, w) = (g, w')"
    by (cases "call_step p c (g, w)") auto
  with Cons show ?case by simp
qed

text \<open>
  Claim C8. After any sequence \<open>cs\<close> of calls of \<^verbatim>\<open>authenticate\<close>, \<^verbatim>\<open>check\<close>,
  \<^verbatim>\<open>getUserOrFail\<close> and \<^verbatim>\<open>authenticateAsClient\<close> on a freshly constructed guard,
  with any provider and any world: the \<^verbatim>\<open>user\<close> field is set if and only if
  \<^verbatim>\<open>isAuthenticated\<close> is true; the calls have emitted at most one succeeded event;
  and if a user is set, the guard stays exactly as it is through any further calls
  \<open>cs'\<close>, so it records one outcome at most.
\<close>

theorem user_iff_authenticated:
  "(user (fst (run_calls p cs (SessionGuard n, w))) \<noteq> None) =
     isAuthenticated (fst (run_calls p cs (SessionGuard n, w)))
   \<and> succeeded_events (trace (snd (run_calls p cs (SessionGuard n, w))))
       \<le> Suc (succeeded_events (trace w))
   \<and> (user (fst (run_calls p cs (SessionGuard n, w))) = None
       \<or> fst (run_calls p (cs @ cs') (SessionGuard n, w)) =
           fst (run_calls p cs (SessionGuard n, w)))"
proof -
  obtain g1 w1 where r: "run_calls p cs (SessionGuard n, w) = (g1, w1)"
    by (cases "run_calls p cs (SessionGuard n, w)") auto
  have inv: "(user g1 \<noteq> None) = isAuthenticated g1
         \<and> (if authenticationAttempted g1
              then succeeded_events (trace w1) \<le> Suc (succeeded_events (trace w))
              else user g1 = None \<and> succeeded_events (trace w1) = succeeded_events (trace w))"
    by (rule run_calls_invariant [OF _ _ r]) (simp_all add: SessionGuard_def)
  have "user g1 = None \<or> fst (run_calls p cs' (g1, w1)) = g1"
  proof (cases "authenticationAttempted g1")
    case True
    then show ?thesis by (simp add: run_calls_memoized)
  next
    case False
    with inv show ?thesis by simp
  qed
  with inv r show ?thesis
    by (auto simp: run_calls_append split: if_splits)
qed

text \<open>
  The session holds user id 42: after \<^verbatim>\<open>getUserOrFail\<close> and \<^verbatim>\<open>check\<close> the user is
  set and one succeeded event was emitted; three more calls leave the user in place.
\<close>

theorem user_iff_authenticated_witness:
  "user (fst (run_calls demo_provider [CallGetUserOrFail, CallCheck]
                (SessionGuard ''web'', world_session_42))) = Some (UserObject ''alice'')
   \<and> isAuthenticated (fst (run_calls demo_provider [CallGetUserOrFail, CallCheck]
                (SessionGuard ''web'', world_session_42)))
   \<and> succeeded_events (trace (snd (run_calls demo_provider [CallGetUserOrFail, CallCheck]
                (SessionGuard ''web'', world_session_42)))) = Suc 0
   \<and> user (fst (run_calls demo_provider
                ([CallGetUserOrFail, CallCheck] @
                 [CallAuthenticate, CallAuthenticateAsClient (UserObject ''bob''), CallCheck])
                (SessionGuard ''web'', world_session_42))) = Some (UserObject ''alice'')"
  using user_iff_authenticated
      [of demo_provider "[CallGetUserOrFail, CallCheck]" "''web''" world_session_42
          "[CallAuthenticate, CallAuthenticateAsClient (UserObject ''bob''), CallCheck]"]
  by (simp add: demo_defs guard_defs authenticateAsClient_def)

end
